theory Spec2Isabelle
  imports Complex_Main
begin

section \<open>JavaScript values used by the rain-alert handlers\<close>

text \<open>
  A JavaScript number is modelled as a real or \<open>NaN\<close>: every comparison with \<open>NaN\<close> is
  false, and arithmetic on \<open>NaN\<close> gives \<open>NaN\<close>. The rounding of IEEE doubles and the two
  infinities are not modelled; on whole numbers below \<open>2 ^ 53\<close> the two agree.
\<close>

datatype jsnum = NaN | Num real

fun js_gt :: "jsnum \<Rightarrow> jsnum \<Rightarrow> bool" where
  "js_gt (Num a) (Num b) = (b < a)"
| "js_gt NaN y = False"
| "js_gt (Num a) NaN = False"

fun js_ge :: "jsnum \<Rightarrow> jsnum \<Rightarrow> bool" where
  "js_ge (Num a) (Num b) = (b \<le> a)"
| "js_ge NaN y = False"
| "js_ge (Num a) NaN = False"

fun js_le :: "jsnum \<Rightarrow> jsnum \<Rightarrow> bool" where
  "js_le (Num a) (Num b) = (a \<le> b)"
| "js_le NaN y = False"
| "js_le (Num a) NaN = False"

fun js_add :: "jsnum \<Rightarrow> jsnum \<Rightarrow> jsnum" where
  "js_add (Num a) (Num b) = Num (a + b)"
| "js_add NaN y = NaN"
| "js_add (Num a) NaN = NaN"

fun js_mul :: "jsnum \<Rightarrow> jsnum \<Rightarrow> jsnum" where
  "js_mul (Num a) (Num b) = Num (a * b)"
| "js_mul NaN y = NaN"
| "js_mul (Num a) NaN = NaN"

text \<open>Division is only ever by the constant 25.4 (millimetres to inches).\<close>

fun mmToInches :: "jsnum \<Rightarrow> jsnum" where
  "mmToInches (Num a) = Num (a / (254 / 10))"
| "mmToInches NaN = NaN"

text \<open>
  Truthiness: \<open>undefined\<close>, \<open>null\<close> and the empty string are falsy strings;
  \<open>null\<close>, \<open>0\<close> and \<open>NaN\<close> are falsy numbers.
\<close>

fun truthyStr :: "string option \<Rightarrow> bool" where
  "truthyStr None = False"
| "truthyStr (Some s) = (s \<noteq> [])"

fun truthyNum :: "jsnum option \<Rightarrow> bool" where
  "truthyNum None = False"
| "truthyNum (Some NaN) = False"
| "truthyNum (Some (Num r)) = (r \<noteq> 0)"

subsection \<open>Decimal text: \<open>Number.prototype.toString\<close>, \<open>parseInt(_, 10)\<close>, \<open>toFixed(4)\<close>\<close>

definition decimalDigits :: string where
  "decimalDigits = ''0123456789''"

definition digitChar :: "nat \<Rightarrow> char" where
  "digitChar d = decimalDigits ! (d mod 10)"

definition digitVal :: "char \<Rightarrow> nat" where
  "digitVal c = length (takeWhile (\<lambda>d. d \<noteq> c) decimalDigits)"

definition isDigit :: "char \<Rightarrow> bool" where
  "isDigit c = (c \<in> set decimalDigits)"

definition isWhiteSpace :: "char \<Rightarrow> bool" where
  "isWhiteSpace c = (c \<in> set [CHR '' '', CHR 0x09, CHR 0x0A, CHR 0x0B, CHR 0x0C, CHR 0x0D])"

fun showNat :: "nat \<Rightarrow> string" where
  "showNat n = (if n < 10 then [digitChar n] else showNat (n div 10) @ [digitChar (n mod 10)])"

declare showNat.simps [simp del]

definition readNat :: "string \<Rightarrow> nat" where
  "readNat ds = foldl (\<lambda>acc c. 10 * acc + digitVal c) 0 ds"

text \<open>
  The digits after the decimal point. JavaScript prints the shortest digit string that
  reads back as the same double (at most 17 significant digits); the model prints the
  exact expansion, cut after 20 digits. \<open>parseInt\<close> reads none of them.
\<close>

fun fracDigits :: "nat \<Rightarrow> real \<Rightarrow> string" where
  "fracDigits 0 f = []"
| "fracDigits (Suc k) f =
     (if f = 0 then []
      else digitChar (nat \<lfloor>10 * f\<rfloor>) # fracDigits k (10 * f - of_int \<lfloor>10 * f\<rfloor>))"

text \<open>
  \<open>x.toString()\<close> for a number of magnitude \<open>a\<close>. From \<open>1e-6\<close> up to, but not including,
  \<open>1e21\<close> (and for zero) the text is plain: the integer part, and the fraction if there
  is one. From \<open>1e21\<close> on and below \<open>1e-6\<close> it is in exponent notation: the first
  significant digit, the remaining ones after a point if there are any, then \<open>e+\<close> or
  \<open>e-\<close> and the decimal exponent. The smallest positive double is above \<open>1e-324\<close>, so
  400 steps always find the exponent of a small number.
\<close>

definition plainText :: "real \<Rightarrow> string" where
  "plainText a =
     showNat (nat \<lfloor>a\<rfloor>) @
     (if of_int \<lfloor>a\<rfloor> = a then [] else ''.'' @ fracDigits 20 (a - of_int \<lfloor>a\<rfloor>))"

definition stripZeros :: "string \<Rightarrow> string" where
  "stripZeros ds = rev (dropWhile (\<lambda>c. c = CHR ''0'') (rev ds))"

definition significand :: "real \<Rightarrow> string" where
  "significand a = stripZeros (showNat (nat \<lfloor>a\<rfloor>) @ fracDigits 20 (a - of_int \<lfloor>a\<rfloor>))"

definition expText :: "string \<Rightarrow> string \<Rightarrow> nat \<Rightarrow> string" where
  "expText ds mark e =
     (case ds of
        [] \<Rightarrow> ''0''
      | d # rest \<Rightarrow> d # (if rest = [] then [] else ''.'' @ rest)) @ mark @ showNat e"

fun expShift :: "nat \<Rightarrow> real \<Rightarrow> nat" where
  "expShift 0 a = 0"
| "expShift (Suc k) a = (if 1 \<le> a then 0 else Suc (expShift k (10 * a)))"

fun toString :: "jsnum \<Rightarrow> string" where
  "toString NaN = ''NaN''"
| "toString (Num r) =
     (if r < 0 then ''-'' else []) @
     (if 10 ^ 21 \<le> \<bar>r\<bar>
      then expText (significand \<bar>r\<bar>) ''e+'' (length (showNat (nat \<lfloor>\<bar>r\<bar>\<rfloor>)) - 1)
      else if 0 < \<bar>r\<bar> \<and> \<bar>r\<bar> < 1 / 10 ^ 6
      then expText (significand (\<bar>r\<bar> * 10 ^ expShift 400 \<bar>r\<bar>)) ''e-'' (expShift 400 \<bar>r\<bar>)
      else plainText \<bar>r\<bar>)"

text \<open>
  \<open>parseInt(s, 10)\<close>: skip leading white space (the ASCII kinds), read an optional
  sign, then the longest run of decimal digits; \<open>NaN\<close> if that run is empty. Whatever
  follows the digits (a decimal point, for instance) is ignored.
\<close>

definition parseInt :: "string \<Rightarrow> jsnum" where
  "parseInt s =
     (let t = dropWhile isWhiteSpace s;
          neg = (case t of [] \<Rightarrow> False | c # r \<Rightarrow> c = CHR ''-'');
          u = (case t of [] \<Rightarrow> [] | c # r \<Rightarrow> if c = CHR ''-'' \<or> c = CHR ''+'' then r else t);
          ds = takeWhile isDigit u
      in if ds = [] then NaN
         else Num (if neg then - real (readNat ds) else real (readNat ds)))"

text \<open>
  \<open>x.toFixed(4)\<close>: the nearest multiple of \<open>1/10000\<close> (the larger one on a tie), printed
  with exactly four digits after the point; from \<open>1e21\<close> on it is \<open>x.toString()\<close>.
\<close>

fun toFixed4 :: "jsnum \<Rightarrow> string" where
  "toFixed4 NaN = ''NaN''"
| "toFixed4 (Num x) =
     (if 10 ^ 21 \<le> \<bar>x\<bar> then toString (Num x)
      else (if x < 0 then ''-'' else []) @
           showNat (nat \<lfloor>\<bar>x\<bar> * 10000 + 1 / 2\<rfloor> div 10000) @ ''.'' @
           [digitChar (nat \<lfloor>\<bar>x\<bar> * 10000 + 1 / 2\<rfloor> div 1000 mod 10),
            digitChar (nat \<lfloor>\<bar>x\<bar> * 10000 + 1 / 2\<rfloor> div 100 mod 10),
            digitChar (nat \<lfloor>\<bar>x\<bar> * 10000 + 1 / 2\<rfloor> div 10 mod 10),
            digitChar (nat \<lfloor>\<bar>x\<bar> * 10000 + 1 / 2\<rfloor> mod 10)])"

text \<open>
  \<open>new Date(ms).toISOString()\<close> raises a \<open>RangeError\<close> unless \<open>ms\<close> is a number of
  magnitude at most \<open>8.64e15\<close>. The text it returns is represented by the whole
  millisecond it denotes.
\<close>

datatype isoString = ISO int

fun toISOString :: "jsnum \<Rightarrow> isoString option" where
  "toISOString NaN = None"
| "toISOString (Num ms) =
     (if \<bar>ms\<bar> \<le> 8640000000000000
      then Some (ISO (if ms < 0 then - \<lfloor>- ms\<rfloor> else \<lfloor>ms\<rfloor>)) else None)"

section \<open>The Redis helpers\<close>

text \<open>
  The database maps keys to strings. Every helper opens its own connection, issues its
  commands and quits; a \<open>fault\<close> says where, if anywhere, that session throws:
  on connecting, at its \<open>n\<close>-th command (counted from 0; no fault if the session has
  fewer commands), or on quitting.
\<close>

type_synonym redis = "string \<rightharpoonup> string"

datatype fault = NoFault | ConnectFails | CmdFails nat | QuitFails

datatype completion = Returned | Threw

record SnoozeState =
  isSnoozed :: bool
  expiresAt :: "jsnum option"

definition getLocationKey :: "jsnum \<Rightarrow> jsnum \<Rightarrow> string" where
  "getLocationKey latitude longitude = toFixed4 latitude @ '','' @ toFixed4 longitude"

definition snoozeKeyOf :: "string \<Rightarrow> string" where
  "snoozeKeyOf locationKey = ''snooze:'' @ locationKey"

definition resumeSentKeyOf :: "string \<Rightarrow> string" where
  "resumeSentKeyOf locationKey = ''snooze:resume_sent:'' @ locationKey"

text \<open>\<open>now\<close> is \<open>Math.floor(Date.now() / 1000)\<close> as read inside the helper.\<close>

definition getSnoozeState :: "fault \<Rightarrow> int \<Rightarrow> redis \<Rightarrow> string \<Rightarrow> SnoozeState" where
  "getSnoozeState f now db locationKey =
     (if f = ConnectFails \<or> f = CmdFails 0 \<or> f = QuitFails
      then \<lparr>isSnoozed = False, expiresAt = None\<rparr>
      else case db (snoozeKeyOf locationKey) of
             None \<Rightarrow> \<lparr>isSnoozed = False, expiresAt = None\<rparr>
           | Some expiryTimestamp \<Rightarrow>
               if expiryTimestamp = [] then \<lparr>isSnoozed = False, expiresAt = None\<rparr>
               else \<lparr>isSnoozed = js_gt (parseInt expiryTimestamp) (Num (of_int now)),
                     expiresAt = Some (parseInt expiryTimestamp)\<rparr>)"

definition snoozeExpiry :: "int \<Rightarrow> jsnum \<Rightarrow> jsnum" where
  "snoozeExpiry now weeks =
     js_add (Num (of_int now))
       (js_mul (js_mul (js_mul (js_mul weeks (Num 7)) (Num 24)) (Num 60)) (Num 60))"

text \<open>
  \<open>setSnooze\<close> rethrows what it catches. Its last statement logs the expiry as an ISO
  date inside the \<open>try\<close>, so an expiry that \<open>Date\<close> cannot render makes it throw after
  the key has been written.
\<close>

definition setSnooze :: "fault \<Rightarrow> int \<Rightarrow> redis \<Rightarrow> string \<Rightarrow> jsnum \<Rightarrow> completion \<times> redis" where
  "setSnooze f now db locationKey weeks =
     (if f = ConnectFails then (Threw, db)
      else if f = CmdFails 0 then (Threw, db)
      else if f = QuitFails
      then (Threw, db(snoozeKeyOf locationKey \<mapsto> toString (snoozeExpiry now weeks)))
      else if toISOString (js_mul (snoozeExpiry now weeks) (Num 1000)) = None
      then (Threw, db(snoozeKeyOf locationKey \<mapsto> toString (snoozeExpiry now weeks)))
      else (Returned, db(snoozeKeyOf locationKey \<mapsto> toString (snoozeExpiry now weeks))))"

definition clearSnooze :: "fault \<Rightarrow> redis \<Rightarrow> string \<Rightarrow> completion \<times> redis" where
  "clearSnooze f db locationKey =
     (if f = ConnectFails then (Threw, db)
      else if f = CmdFails 0 then (Threw, db)
      else if f = CmdFails 1 then (Threw, db(snoozeKeyOf locationKey := None))
      else if f = QuitFails
      then (Threw, db(snoozeKeyOf locationKey := None, resumeSentKeyOf locationKey := None))
      else (Returned, db(snoozeKeyOf locationKey := None, resumeSentKeyOf locationKey := None)))"

definition hasResumeEmailBeenSent :: "fault \<Rightarrow> redis \<Rightarrow> string \<Rightarrow> bool" where
  "hasResumeEmailBeenSent f db locationKey =
     (if f = ConnectFails \<or> f = CmdFails 0 \<or> f = QuitFails then False
      else db (resumeSentKeyOf locationKey) = Some ''1'')"

text \<open>\<open>markResumeEmailSent\<close> logs what it catches and returns normally.\<close>

definition markResumeEmailSent :: "fault \<Rightarrow> redis \<Rightarrow> string \<Rightarrow> redis" where
  "markResumeEmailSent f db locationKey =
     (if f = ConnectFails \<or> f = CmdFails 0 then db
      else db(resumeSentKeyOf locationKey \<mapsto> ''1''))"

section \<open>The handlers\<close>

text \<open>
  The environment variables. A text variable is \<open>None\<close> when unset. A numeric variable
  holds what \<open>parseFloat\<close> makes of its text (\<open>NaN\<close> for text that is no number), and is
  \<open>None\<close> when unset or empty, which is when \<open>env.X || "default"\<close> takes the default.
\<close>

record EnvVars =
  RESEND_API_KEY :: "string option"
  ALERT_EMAIL :: "string option"
  SENDER_EMAIL :: "string option"
  PRECIPITATION_THRESHOLD_INCHES :: "jsnum option"
  LOCATION_LATITUDE :: "jsnum option"
  LOCATION_LONGITUDE :: "jsnum option"
  db_REDIS_URL :: "string option"
  SNOOZE_MEDIUM_MIN :: "jsnum option"
  SNOOZE_MEDIUM_MAX :: "jsnum option"
  SNOOZE_MEDIUM_WEEKS :: "jsnum option"
  SNOOZE_HIGH_MIN :: "jsnum option"
  SNOOZE_HIGH_WEEKS :: "jsnum option"

definition envNum :: "jsnum option \<Rightarrow> real \<Rightarrow> jsnum" where
  "envNum v d = (case v of None \<Rightarrow> Num d | Some x \<Rightarrow> x)"

text \<open>What the outside world does during one run.\<close>

datatype sendResult = SendOk | SendError | SendThrows

datatype weatherResult =
    FetchThrows | NoResponses | NoDaily | NoValues | Values "jsnum list"

record world =
  nowGet :: int
  nowExpiry :: int
  nowSet :: int
  faultGet :: fault
  faultHas :: fault
  faultMark :: fault
  faultClear :: fault
  faultSet :: fault
  resumeSend :: sendResult
  alertSend :: sendResult
  weather :: weatherResult
  startDateStr :: string
  endDateStr :: string

text \<open>
  The three \<open>now*\<close> fields are the clock as read by \<open>getSnoozeState\<close>, by the expiry test
  of the handler and by \<open>setSnooze\<close>; \<open>resumeSend\<close> and \<open>alertSend\<close> are what
  \<open>resend.emails.send\<close> does (a result without error, a result with error, or a
  rejected promise); \<open>weather\<close> is what \<open>fetchWeatherApi\<close> delivers.
\<close>

text \<open>
  An email is represented by what its template is filled with, and by the one place where
  the templates of the two source files differ: the character written after each
  coordinate in the HTML body. \<open>api/check-precipitation.ts\<close> has the degree sign there
  (the bytes \<open>C2 B0\<close>); the source of the snooze handler has the bytes \<open>EC A7 B8\<close>, in
  the alert email and in the resume email.
\<close>

definition degreeSignPlain :: string where
  "degreeSignPlain = [CHR 0xC2, CHR 0xB0]"

definition degreeSignSnooze :: string where
  "degreeSignSnooze = [CHR 0xEC, CHR 0xA7, CHR 0xB8]"

record email =
  sender :: "string option"
  recipient :: "string option"
  lat :: jsnum
  lon :: jsnum
  degreeSign :: string

record alertEmail = email +
  rangeStart :: string
  rangeEnd :: string
  totalInches :: jsnum
  thresholdShown :: jsnum

record report =
  precipitation :: jsnum
  threshold :: jsnum
  latitude :: jsnum
  longitude :: jsnum
  dateStart :: string
  dateEnd :: string

record snoozeInfo =
  snoozed :: bool
  snoozeWeeks :: "jsnum option"

text \<open>
  The JSON responses. \<open>MissingEnv\<close> lists the missing variables in the snooze handler
  only; \<open>AlertSent\<close> carries the snooze fields in the snooze handler only.
\<close>

datatype response =
    MissingEnv "string list option"
  | CurrentlySnoozed isoString
  | FetchFailed
  | NoDailyData
  | NoPrecipitationData
  | AlertEmailFailed
  | AlertSent report "snoozeInfo option"
  | NoAlertNeeded report
  | InternalError

text \<open>What a run does, in order.\<close>

datatype event =
    RedisGetSnooze
  | RedisGetResumeSent
  | RedisMarkResumeSent
  | RedisClear
  | RedisSetSnooze jsnum
  | SendResume email
  | SendAlert alertEmail
  | FetchWeather
  | LogHigh
  | LogMedium
  | LogFailedToSetSnooze

record result =
  response :: response
  store :: redis
  trace :: "event list"

definition missingVars :: "EnvVars \<Rightarrow> string list" where
  "missingVars env =
     (if \<not> truthyStr (RESEND_API_KEY env) then [''RESEND_API_KEY''] else []) @
     (if \<not> truthyStr (ALERT_EMAIL env) then [''ALERT_EMAIL''] else []) @
     (if \<not> truthyStr (SENDER_EMAIL env) then [''SENDER_EMAIL''] else [])"

definition totalPrecipitationInches :: "jsnum list \<Rightarrow> jsnum" where
  "totalPrecipitationInches precipitationValues =
     mmToInches (foldl js_add (Num 0) precipitationValues)"

definition mkReport :: "EnvVars \<Rightarrow> world \<Rightarrow> jsnum \<Rightarrow> report" where
  "mkReport env w inches =
     \<lparr>precipitation = inches,
      threshold = envNum (PRECIPITATION_THRESHOLD_INCHES env) (1 / 2),
      latitude = envNum (LOCATION_LATITUDE env) (378044 / 10000),
      longitude = envNum (LOCATION_LONGITUDE env) (- (1222708 / 10000)),
      dateStart = startDateStr w, dateEnd = endDateStr w\<rparr>"

definition mkAlertEmail :: "EnvVars \<Rightarrow> world \<Rightarrow> jsnum \<Rightarrow> alertEmail" where
  "mkAlertEmail env w inches =
     \<lparr>sender = SENDER_EMAIL env, recipient = ALERT_EMAIL env,
      lat = envNum (LOCATION_LATITUDE env) (378044 / 10000),
      lon = envNum (LOCATION_LONGITUDE env) (- (1222708 / 10000)),
      degreeSign = degreeSignSnooze,
      rangeStart = startDateStr w, rangeEnd = endDateStr w,
      totalInches = inches,
      thresholdShown = envNum (PRECIPITATION_THRESHOLD_INCHES env) (1 / 2)\<rparr>"

definition mkAlertEmailPlain :: "EnvVars \<Rightarrow> world \<Rightarrow> jsnum \<Rightarrow> alertEmail" where
  "mkAlertEmailPlain env w inches =
     \<lparr>sender = SENDER_EMAIL env, recipient = ALERT_EMAIL env,
      lat = envNum (LOCATION_LATITUDE env) (378044 / 10000),
      lon = envNum (LOCATION_LONGITUDE env) (- (1222708 / 10000)),
      degreeSign = degreeSignPlain,
      rangeStart = startDateStr w, rangeEnd = endDateStr w,
      totalInches = inches,
      thresholdShown = envNum (PRECIPITATION_THRESHOLD_INCHES env) (1 / 2)\<rparr>"

definition mkResumeEmail :: "EnvVars \<Rightarrow> email" where
  "mkResumeEmail env =
     \<lparr>sender = SENDER_EMAIL env, recipient = ALERT_EMAIL env,
      lat = envNum (LOCATION_LATITUDE env) (378044 / 10000),
      lon = envNum (LOCATION_LONGITUDE env) (- (1222708 / 10000)),
      degreeSign = degreeSignSnooze\<rparr>"

subsection \<open>The handler with snooze support\<close>

text \<open>In arithmetic and comparisons \<open>null\<close> counts as \<open>0\<close>.\<close>

definition nullToNum :: "jsnum option \<Rightarrow> jsnum" where
  "nullToNum v = (case v of None \<Rightarrow> Num 0 | Some x \<Rightarrow> x)"

definition locationKeyOf :: "EnvVars \<Rightarrow> string" where
  "locationKeyOf env =
     getLocationKey (envNum (LOCATION_LATITUDE env) (378044 / 10000))
       (envNum (LOCATION_LONGITUDE env) (- (1222708 / 10000)))"

text \<open>
  \<open>clearSnooze\<close> is called outside any local \<open>try\<close>: when it throws, the handler's outer
  \<open>catch\<close> answers with the internal-error response.
\<close>

definition clearAndProceed ::
  "world \<Rightarrow> redis \<Rightarrow> string \<Rightarrow> event list \<Rightarrow> response option \<times> redis \<times> event list" where
  "clearAndProceed w db locationKey t =
     (case clearSnooze (faultClear w) db locationKey of
        (Threw, db') \<Rightarrow> (Some InternalError, db', t @ [RedisClear])
      | (Returned, db') \<Rightarrow> (None, db', t @ [RedisClear]))"

text \<open>The body of the test for an expired snooze: the resume email, then the clearing.\<close>

definition resolveExpiry ::
  "EnvVars \<Rightarrow> world \<Rightarrow> redis \<Rightarrow> string \<Rightarrow> response option \<times> redis \<times> event list" where
  "resolveExpiry env w db locationKey =
     (if \<not> hasResumeEmailBeenSent (faultHas w) db locationKey
      then (case resumeSend w of
              SendThrows \<Rightarrow>
                (Some InternalError, db, [RedisGetResumeSent, SendResume (mkResumeEmail env)])
            | SendError \<Rightarrow>
                clearAndProceed w db locationKey
                  [RedisGetResumeSent, SendResume (mkResumeEmail env)]
            | SendOk \<Rightarrow>
                clearAndProceed w (markResumeEmailSent (faultMark w) db locationKey) locationKey
                  [RedisGetResumeSent, SendResume (mkResumeEmail env), RedisMarkResumeSent])
      else clearAndProceed w db locationKey [RedisGetResumeSent])"

text \<open>
  The snooze check made when a Redis URL is configured. The result is \<open>Some\<close> response
  when the handler answers here, \<open>None\<close> when it goes on to the precipitation check.
\<close>

definition snoozeGate :: "EnvVars \<Rightarrow> world \<Rightarrow> redis \<Rightarrow> response option \<times> redis \<times> event list" where
  "snoozeGate env w db =
     (if isSnoozed (getSnoozeState (faultGet w) (nowGet w) db (locationKeyOf env))
      then (case toISOString
                   (js_mul (nullToNum (expiresAt
                      (getSnoozeState (faultGet w) (nowGet w) db (locationKeyOf env)))) (Num 1000)) of
              None \<Rightarrow> (Some InternalError, db, [RedisGetSnooze])
            | Some stamp \<Rightarrow> (Some (CurrentlySnoozed stamp), db, [RedisGetSnooze]))
      else if truthyNum (expiresAt (getSnoozeState (faultGet w) (nowGet w) db (locationKeyOf env)))
            \<and> js_le (nullToNum (expiresAt
                  (getSnoozeState (faultGet w) (nowGet w) db (locationKeyOf env))))
                 (Num (of_int (nowExpiry w)))
      then (case resolveExpiry env w db (locationKeyOf env) of
              (r, db', t) \<Rightarrow> (r, db', RedisGetSnooze # t))
      else (None, db, [RedisGetSnooze]))"

text \<open>The tier: the high test first, then the medium range, inclusive at both ends.\<close>

definition selectTier :: "EnvVars \<Rightarrow> jsnum \<Rightarrow> jsnum option \<times> event list" where
  "selectTier env inches =
     (if js_ge inches (envNum (SNOOZE_HIGH_MIN env) 1)
      then (Some (envNum (SNOOZE_HIGH_WEEKS env) 3), [LogHigh])
      else if js_ge inches (envNum (SNOOZE_MEDIUM_MIN env) (1 / 2))
            \<and> js_le inches (envNum (SNOOZE_MEDIUM_MAX env) 1)
      then (Some (envNum (SNOOZE_MEDIUM_WEEKS env) 2), [LogMedium])
      else (None, []))"

text \<open>The call of \<open>setSnooze\<close>, in a \<open>try\<close> whose \<open>catch\<close> logs and continues.\<close>

definition applySnooze ::
  "world \<Rightarrow> redis \<Rightarrow> string \<Rightarrow> jsnum option \<Rightarrow> redis \<times> event list" where
  "applySnooze w db locationKey weeksOpt =
     (case weeksOpt of
        None \<Rightarrow> (db, [])
      | Some weeks \<Rightarrow>
          (case setSnooze (faultSet w) (nowSet w) db locationKey weeks of
             (Returned, db') \<Rightarrow> (db', [RedisSetSnooze weeks])
           | (Threw, db') \<Rightarrow> (db', [RedisSetSnooze weeks, LogFailedToSetSnooze])))"

definition alertBranch :: "EnvVars \<Rightarrow> world \<Rightarrow> redis \<Rightarrow> jsnum \<Rightarrow> result" where
  "alertBranch env w db inches =
     (case alertSend w of
        SendThrows \<Rightarrow>
          \<lparr>response = InternalError, store = db, trace = [SendAlert (mkAlertEmail env w inches)]\<rparr>
      | SendError \<Rightarrow>
          \<lparr>response = AlertEmailFailed, store = db,
           trace = [SendAlert (mkAlertEmail env w inches)]\<rparr>
      | SendOk \<Rightarrow>
          (if truthyStr (db_REDIS_URL env)
           then (case selectTier env inches of
                   (weeksOpt, logs) \<Rightarrow>
                     (case applySnooze w db (locationKeyOf env) weeksOpt of
                        (db', evs) \<Rightarrow>
                          \<lparr>response = AlertSent (mkReport env w inches)
                             (Some \<lparr>snoozed = (weeksOpt \<noteq> None), snoozeWeeks = weeksOpt\<rparr>),
                           store = db',
                           trace = SendAlert (mkAlertEmail env w inches) # logs @ evs\<rparr>))
           else \<lparr>response = AlertSent (mkReport env w inches)
                   (Some \<lparr>snoozed = False, snoozeWeeks = None\<rparr>),
                 store = db, trace = [SendAlert (mkAlertEmail env w inches)]\<rparr>))"

definition precipitationCheck :: "EnvVars \<Rightarrow> world \<Rightarrow> redis \<Rightarrow> result" where
  "precipitationCheck env w db =
     (case weather w of
        FetchThrows \<Rightarrow> \<lparr>response = InternalError, store = db, trace = [FetchWeather]\<rparr>
      | NoResponses \<Rightarrow> \<lparr>response = FetchFailed, store = db, trace = [FetchWeather]\<rparr>
      | NoDaily \<Rightarrow> \<lparr>response = NoDailyData, store = db, trace = [FetchWeather]\<rparr>
      | NoValues \<Rightarrow> \<lparr>response = NoPrecipitationData, store = db, trace = [FetchWeather]\<rparr>
      | Values precipitationValues \<Rightarrow>
          (if js_gt (totalPrecipitationInches precipitationValues)
                (envNum (PRECIPITATION_THRESHOLD_INCHES env) (1 / 2))
           then (case alertBranch env w db (totalPrecipitationInches precipitationValues) of
                   r \<Rightarrow> r\<lparr>trace := FetchWeather # trace r\<rparr>)
           else \<lparr>response = NoAlertNeeded
                              (mkReport env w (totalPrecipitationInches precipitationValues)),
                 store = db, trace = [FetchWeather]\<rparr>))"

definition handler :: "EnvVars \<Rightarrow> world \<Rightarrow> redis \<Rightarrow> result" where
  "handler env w db =
     (if length (missingVars env) > 0
      then \<lparr>response = MissingEnv (Some (missingVars env)), store = db, trace = []\<rparr>
      else if truthyStr (db_REDIS_URL env)
      then (case snoozeGate env w db of
              (Some r, db', t) \<Rightarrow> \<lparr>response = r, store = db', trace = t\<rparr>
            | (None, db', t) \<Rightarrow>
                (case precipitationCheck env w db' of r \<Rightarrow> r\<lparr>trace := t @ trace r\<rparr>))
      else precipitationCheck env w db)"

subsection \<open>The handler without snooze support (\<open>api/check-precipitation.ts\<close>)\<close>

definition handlerPlain :: "EnvVars \<Rightarrow> world \<Rightarrow> response \<times> event list" where
  "handlerPlain env w =
     (if \<not> truthyStr (RESEND_API_KEY env) \<or> \<not> truthyStr (ALERT_EMAIL env)
         \<or> \<not> truthyStr (SENDER_EMAIL env)
      then (MissingEnv None, [])
      else case weather w of
        FetchThrows \<Rightarrow> (InternalError, [FetchWeather])
      | NoResponses \<Rightarrow> (FetchFailed, [FetchWeather])
      | NoDaily \<Rightarrow> (NoDailyData, [FetchWeather])
      | NoValues \<Rightarrow> (NoPrecipitationData, [FetchWeather])
      | Values precipitationValues \<Rightarrow>
          (if js_gt (totalPrecipitationInches precipitationValues)
                (envNum (PRECIPITATION_THRESHOLD_INCHES env) (1 / 2))
           then (case alertSend w of
                   SendThrows \<Rightarrow>
                     (InternalError,
                      [FetchWeather,
                       SendAlert (mkAlertEmailPlain env w (totalPrecipitationInches precipitationValues))])
                 | SendError \<Rightarrow>
                     (AlertEmailFailed,
                      [FetchWeather,
                       SendAlert (mkAlertEmailPlain env w (totalPrecipitationInches precipitationValues))])
                 | SendOk \<Rightarrow>
                     (AlertSent (mkReport env w (totalPrecipitationInches precipitationValues)) None,
                      [FetchWeather,
                       SendAlert (mkAlertEmailPlain env w (totalPrecipitationInches precipitationValues))]))
           else (NoAlertNeeded (mkReport env w (totalPrecipitationInches precipitationValues)),
                 [FetchWeather])))"

text \<open>
  The part of a response that both handlers produce: the list of missing variables and
  the snooze fields, which only the snooze handler adds, are dropped.
\<close>

fun commonFields :: "response \<Rightarrow> response" where
  "commonFields (MissingEnv names) = MissingEnv None"
| "commonFields (AlertSent rep info) = AlertSent rep None"
| "commonFields r = r"

text \<open>An event with the degree sign of its alert email replaced.\<close>

fun withDegreeSign :: "string \<Rightarrow> event \<Rightarrow> event" where
  "withDegreeSign d (SendAlert m) = SendAlert (m\<lparr>degreeSign := d\<rparr>)"
| "withDegreeSign d ev = ev"

section \<open>Concrete runs\<close>

text \<open>
  A complete configuration with every optional variable left to its default (Oakland,
  threshold 0.5 in, medium 0.5 to 1.0 in for 2 weeks, high from 1.0 in for 3 weeks) and a
  Redis URL; and a run in which nothing fails and 17.7 mm of rain fell (about 0.70 in).
\<close>

definition env0 :: EnvVars where
  "env0 = \<lparr>RESEND_API_KEY = Some ''re_key'', ALERT_EMAIL = Some ''me@example.com'',
     SENDER_EMAIL = Some ''rain@example.com'', PRECIPITATION_THRESHOLD_INCHES = None,
     LOCATION_LATITUDE = None, LOCATION_LONGITUDE = None, db_REDIS_URL = Some ''redis://db'',
     SNOOZE_MEDIUM_MIN = None, SNOOZE_MEDIUM_MAX = None, SNOOZE_MEDIUM_WEEKS = None,
     SNOOZE_HIGH_MIN = None, SNOOZE_HIGH_WEEKS = None\<rparr>"

definition world0 :: world where
  "world0 = \<lparr>nowGet = 1700000000, nowExpiry = 1700000000, nowSet = 1700000000,
     faultGet = NoFault, faultHas = NoFault, faultMark = NoFault, faultClear = NoFault,
     faultSet = NoFault, resumeSend = SendOk, alertSend = SendOk,
     weather = Values [Num 10, Num (77 / 10)],
     startDateStr = ''2023-11-07'', endDateStr = ''2023-11-14''\<rparr>"

text \<open>
  Two databases for the default location: a snooze that expires 100000 seconds after
  the clock of \<open>world0\<close>, and one that expired 10 seconds before it.
\<close>

definition dbSnoozed :: redis where
  "dbSnoozed = [snoozeKeyOf (locationKeyOf env0) \<mapsto> ''1700100000'']"

definition dbExpired :: redis where
  "dbExpired = [snoozeKeyOf (locationKeyOf env0) \<mapsto> ''1699999990'']"

section \<open>Decimal text read back\<close>













lemma keys_distinct: "snoozeKeyOf k \<noteq> resumeSentKeyOf k"
  by (simp add: snoozeKeyOf_def resumeSentKeyOf_def)


section \<open>Writing and reading the expiry\<close>



lemma snoozeExpiry_Num:
  "snoozeExpiry now (Num wk) = Num (of_int now + wk * 604800)"
  by (simp add: snoozeExpiry_def)

lemma setSnooze_store:
  "f \<noteq> ConnectFails \<Longrightarrow> f \<noteq> CmdFails 0 \<Longrightarrow>
   snd (setSnooze f now db k weeks) = db(snoozeKeyOf k \<mapsto> toString (snoozeExpiry now weeks))"
  by (simp add: setSnooze_def)



lemma setSnooze_throws:
  "fst (setSnooze f now db k weeks) = Threw \<longleftrightarrow>
     f = ConnectFails \<or> f = CmdFails 0 \<or> f = QuitFails \<or>
     toISOString (js_mul (snoozeExpiry now weeks) (Num 1000)) = None"
  by (simp add: setSnooze_def)

section \<open>What a run can do\<close>

lemma gate_events:
  "snoozeGate env w db = (r, db', t) \<Longrightarrow>
   set t \<subseteq> {RedisGetSnooze, RedisGetResumeSent, RedisMarkResumeSent, RedisClear,
            SendResume (mkResumeEmail env)}"
  by (auto simp: snoozeGate_def resolveExpiry_def clearAndProceed_def
      split: if_splits option.splits sendResult.splits prod.splits completion.splits)

lemma selectTier_logs:
  "selectTier env x = (wo, logs) \<Longrightarrow> set logs \<subseteq> {LogHigh, LogMedium}"
  by (auto simp: selectTier_def split: if_splits)

lemma check_setSnooze_event:
  "RedisSetSnooze wk \<in> set (trace (precipitationCheck env w db)) \<Longrightarrow>
   alertSend w = SendOk \<and> truthyStr (db_REDIS_URL env) \<and>
   (\<exists>vs. weather w = Values vs \<and>
      js_gt (totalPrecipitationInches vs) (envNum (PRECIPITATION_THRESHOLD_INCHES env) (1 / 2)) \<and>
      fst (selectTier env (totalPrecipitationInches vs)) = Some wk)"
  by (auto simp: precipitationCheck_def alertBranch_def applySnooze_def
      dest: selectTier_logs
      split: weatherResult.splits if_splits sendResult.splits prod.splits option.splits completion.splits)

lemma handler_trace_split:
  "\<exists>t. set t \<subseteq> {RedisGetSnooze, RedisGetResumeSent, RedisMarkResumeSent, RedisClear,
            SendResume (mkResumeEmail env)} \<and>
     (trace (handler env w db) = t \<or> (\<exists>db'. trace (handler env w db) = t @ trace (precipitationCheck env w db')))"
proof (cases "length (missingVars env) > 0")
  case True
  then show ?thesis by (intro exI[of _ "[]"]) (simp add: handler_def)
next
  case False
  show ?thesis
  proof (cases "truthyStr (db_REDIS_URL env)")
    case r: False
    with False show ?thesis by (intro exI[of _ "[]"]) (auto simp: handler_def)
  next
    case r: True
    obtain x db' t where g: "snoozeGate env w db = (x, db', t)" by (cases "snoozeGate env w db") auto
    from gate_events[OF g] g r False show ?thesis
      by (intro exI[of _ t]) (auto simp: handler_def split: option.splits)
  qed
qed


lemma parseInt_whole: "parseInt s = Num e \<Longrightarrow> \<exists>n. e = of_int n"
proof -
  assume a: "parseInt s = Num e"
  have "e = of_int (int (readNat (takeWhile isDigit (case dropWhile isWhiteSpace s of [] \<Rightarrow> []
            | c # r \<Rightarrow> if c = CHR ''-'' \<or> c = CHR ''+'' then r else dropWhile isWhiteSpace s))))
        \<or> e = of_int (- int (readNat (takeWhile isDigit (case dropWhile isWhiteSpace s of [] \<Rightarrow> []
            | c # r \<Rightarrow> if c = CHR ''-'' \<or> c = CHR ''+'' then r else dropWhile isWhiteSpace s))))"
    using a by (auto simp: parseInt_def Let_def split: if_splits)
  then show ?thesis by blast
qed

lemma missingVars_empty:
  "(length (missingVars env) > 0) =
     (\<not> truthyStr (RESEND_API_KEY env) \<or> \<not> truthyStr (ALERT_EMAIL env)
      \<or> \<not> truthyStr (SENDER_EMAIL env))"
  by (auto simp: missingVars_def)

lemma snoozed_state:
  assumes "isSnoozed (getSnoozeState f now db k)"
  shows "\<exists>n. expiresAt (getSnoozeState f now db k) = Some (Num (of_int n)) \<and> now < n"
proof -
  from assms obtain s where s: "db (snoozeKeyOf k) = Some s" "s \<noteq> []"
    and st: "getSnoozeState f now db k =
      \<lparr>isSnoozed = js_gt (parseInt s) (Num (of_int now)), expiresAt = Some (parseInt s)\<rparr>"
    by (auto simp: getSnoozeState_def split: if_splits option.splits)
  from assms st have g: "js_gt (parseInt s) (Num (of_int now))" by simp
  then obtain e where e: "parseInt s = Num e" by (cases "parseInt s") auto
  from parseInt_whole[OF e] obtain n where n: "e = of_int n" by blast
  from g e n have "now < n" by simp
  with st e n show ?thesis by auto
qed

lemma applySnooze_events:
  "snd (applySnooze w db k wo) = snd (applySnooze w db' k wo)"
  by (auto simp: applySnooze_def setSnooze_def split: option.splits)

lemma check_ignores_store:
  "response (precipitationCheck env w db) = response (precipitationCheck env w db')"
  "trace (precipitationCheck env w db) = trace (precipitationCheck env w db')"
  by (auto simp: precipitationCheck_def alertBranch_def case_prod_beta
        applySnooze_events [of w db _ _ db']
      split: weatherResult.splits sendResult.splits)

lemma applySnooze_ignores_faultGet:
  "applySnooze (w\<lparr>faultGet := f\<rparr>) db k wo = applySnooze w db k wo"
  by (cases wo) (simp_all add: applySnooze_def)

lemma alertBranch_ignores_faultGet:
  "alertBranch env (w\<lparr>faultGet := f\<rparr>) db x = alertBranch env w db x"
  by (cases "alertSend w")
    (simp_all add: alertBranch_def case_prod_beta applySnooze_ignores_faultGet mkReport_def
      mkAlertEmail_def)

lemma check_ignores_faultGet:
  "precipitationCheck env (w\<lparr>faultGet := f\<rparr>) db = precipitationCheck env w db"
  by (cases "weather w")
    (simp_all add: precipitationCheck_def alertBranch_ignores_faultGet mkReport_def)

lemma gate_fails_open:
  assumes "f = ConnectFails \<or> f = CmdFails 0 \<or> f = QuitFails"
  shows "snoozeGate env (w\<lparr>faultGet := f\<rparr>) db = (None, db, [RedisGetSnooze])"
  using assms by (auto simp: snoozeGate_def getSnoozeState_def)

lemma gate_absent:
  "snoozeGate env (w\<lparr>faultGet := NoFault\<rparr>) (db(snoozeKeyOf (locationKeyOf env) := None)) =
     (None, db(snoozeKeyOf (locationKeyOf env) := None), [RedisGetSnooze])"
  by (simp add: snoozeGate_def getSnoozeState_def)

lemma js_le_not_gt: "js_le a b \<Longrightarrow> \<not> js_gt a b"
  by (cases a; cases b) auto

lemma gate_responses:
  "snoozeGate env w db = (Some r, db', t) \<Longrightarrow> r = InternalError \<or> (\<exists>s. r = CurrentlySnoozed s)"
  by (auto simp: snoozeGate_def resolveExpiry_def clearAndProceed_def
      split: if_splits option.splits sendResult.splits prod.splits completion.splits)

lemma handler_split:
  obtains (early) t where
      "set t \<subseteq> {RedisGetSnooze, RedisGetResumeSent, RedisMarkResumeSent, RedisClear,
                SendResume (mkResumeEmail env)}"
      "trace (handler env w db) = t"
      "response (handler env w db) = InternalError
       \<or> (\<exists>s. response (handler env w db) = CurrentlySnoozed s)
       \<or> (\<exists>m. response (handler env w db) = MissingEnv m)"
  | (check) t db' where
      "set t \<subseteq> {RedisGetSnooze, RedisGetResumeSent, RedisMarkResumeSent, RedisClear,
                SendResume (mkResumeEmail env)}"
      "trace (handler env w db) = t @ trace (precipitationCheck env w db')"
      "response (handler env w db) = response (precipitationCheck env w db')"
      "store (handler env w db) = store (precipitationCheck env w db')"
proof (cases "length (missingVars env) > 0")
  case True
  then show ?thesis by (intro early[of "[]"]) (simp_all add: handler_def)
next
  case False
  show ?thesis
  proof (cases "truthyStr (db_REDIS_URL env)")
    case r: False
    with False show ?thesis by (intro check[of "[]" db]) (simp_all add: handler_def)
  next
    case r: True
    obtain x db' t where g: "snoozeGate env w db = (x, db', t)"
      by (cases "snoozeGate env w db") auto
    show ?thesis
    proof (cases x)
      case None
      with g r False gate_events[OF g] show ?thesis
        by (intro check[of t db']) (simp_all add: handler_def)
    next
      case (Some a)
      with g r False gate_events[OF g] gate_responses[of env w db a db' t] show ?thesis
        by (intro early[of t]) (auto simp: handler_def)
    qed
  qed
qed

lemma applySnooze_event_kinds:
  "set (snd (applySnooze w db k wo)) \<subseteq> insert LogFailedToSetSnooze (range RedisSetSnooze)"
  by (auto simp: applySnooze_def split: option.splits prod.splits completion.splits)

lemma check_trace_no_alert:
  "weather w = Values vs \<Longrightarrow>
   \<not> js_gt (totalPrecipitationInches vs) (envNum (PRECIPITATION_THRESHOLD_INCHES env) (1 / 2)) \<Longrightarrow>
   precipitationCheck env w db =
     \<lparr>response = NoAlertNeeded (mkReport env w (totalPrecipitationInches vs)),
      store = db, trace = [FetchWeather]\<rparr>"
  by (simp add: precipitationCheck_def)

lemma alertBranch_sends:
  "SendAlert (mkAlertEmail env w x) \<in> set (trace (alertBranch env w db x))"
  by (auto simp: alertBranch_def case_prod_beta split: sendResult.splits)

lemma check_trace_alert:
  "weather w = Values vs \<Longrightarrow>
   js_gt (totalPrecipitationInches vs) (envNum (PRECIPITATION_THRESHOLD_INCHES env) (1 / 2)) \<Longrightarrow>
   SendAlert (mkAlertEmail env w (totalPrecipitationInches vs))
     \<in> set (trace (precipitationCheck env w db))"
  by (simp add: precipitationCheck_def alertBranch_sends)

lemma selectTier_boundary:
  "envNum (SNOOZE_HIGH_MIN env) 1 = Num b \<Longrightarrow>
   selectTier env (Num b) = (Some (envNum (SNOOZE_HIGH_WEEKS env) 3), [LogHigh])"
  by (simp add: selectTier_def)

lemma selectTier_one_log:
  "snd (selectTier env x) = [] \<or> snd (selectTier env x) = [LogHigh]
   \<or> snd (selectTier env x) = [LogMedium]"
  by (simp add: selectTier_def)

lemma alertBranch_tier_logs:
  "LogHigh \<in> set (trace (alertBranch env w db x)) \<Longrightarrow> snd (selectTier env x) = [LogHigh]"
  "LogMedium \<in> set (trace (alertBranch env w db x)) \<Longrightarrow> snd (selectTier env x) = [LogMedium]"
  using selectTier_one_log [of env x] applySnooze_event_kinds [of w db "locationKeyOf env" "fst (selectTier env x)"]
  by (auto simp: alertBranch_def case_prod_beta split: sendResult.splits if_splits)

lemma check_tier_logs:
  "LogHigh \<in> set (trace (precipitationCheck env w db)) \<Longrightarrow>
     \<exists>vs. weather w = Values vs \<and> snd (selectTier env (totalPrecipitationInches vs)) = [LogHigh]"
  "LogMedium \<in> set (trace (precipitationCheck env w db)) \<Longrightarrow>
     \<exists>vs. weather w = Values vs \<and> snd (selectTier env (totalPrecipitationInches vs)) = [LogMedium]"
  by (auto simp: precipitationCheck_def dest: alertBranch_tier_logs
      split: weatherResult.splits if_splits)

lemma check_alert_sent:
  assumes "response (precipitationCheck env w db) = AlertSent rep info"
    and "weather w = Values vs"
  shows "alertSend w = SendOk"
    and "rep = mkReport env w (totalPrecipitationInches vs)"
    and "truthyStr (db_REDIS_URL env) \<Longrightarrow>
         info = Some \<lparr>snoozed = (fst (selectTier env (totalPrecipitationInches vs)) \<noteq> None),
                      snoozeWeeks = fst (selectTier env (totalPrecipitationInches vs))\<rparr>"
    and "truthyStr (db_REDIS_URL env) \<Longrightarrow>
         set (snd (selectTier env (totalPrecipitationInches vs)))
           \<subseteq> set (trace (precipitationCheck env w db))"
  using assms
  by (auto simp: precipitationCheck_def alertBranch_def case_prod_beta
      split: sendResult.splits if_splits)

lemma applySnooze_threw:
  "fst (setSnooze (faultSet w) (nowSet w) db k wk) = Threw \<Longrightarrow>
   applySnooze w db k (Some wk) =
     (snd (setSnooze (faultSet w) (nowSet w) db k wk), [RedisSetSnooze wk, LogFailedToSetSnooze])"
  by (cases "setSnooze (faultSet w) (nowSet w) db k wk") (simp add: applySnooze_def)

lemma check_failed_write:
  assumes "truthyStr (db_REDIS_URL env)"
    and "weather w = Values vs"
    and "js_gt (totalPrecipitationInches vs) (envNum (PRECIPITATION_THRESHOLD_INCHES env) (1 / 2))"
    and "alertSend w = SendOk"
    and "fst (selectTier env (totalPrecipitationInches vs)) = Some wk"
    and "fst (setSnooze (faultSet w) (nowSet w) db (locationKeyOf env) wk) = Threw"
  shows "precipitationCheck env w db =
     \<lparr>response = AlertSent (mkReport env w (totalPrecipitationInches vs))
                  (Some \<lparr>snoozed = True, snoozeWeeks = Some wk\<rparr>),
      store = snd (setSnooze (faultSet w) (nowSet w) db (locationKeyOf env) wk),
      trace = FetchWeather # SendAlert (mkAlertEmail env w (totalPrecipitationInches vs)) #
              snd (selectTier env (totalPrecipitationInches vs)) @
              [RedisSetSnooze wk, LogFailedToSetSnooze]\<rparr>"
  using assms
  by (simp add: precipitationCheck_def alertBranch_def case_prod_beta applySnooze_threw)

text \<open>The definitions that a concrete run unfolds.\<close>

lemmas text_defs = parseInt_def isWhiteSpace_def isDigit_def decimalDigits_def readNat_def
  digitVal_def


lemmas run_defs = handler_def snoozeGate_def resolveExpiry_def clearAndProceed_def
  precipitationCheck_def alertBranch_def applySnooze_def selectTier_def
  missingVars_def getSnoozeState_def setSnooze_def clearSnooze_def hasResumeEmailBeenSent_def
  markResumeEmailSent_def totalPrecipitationInches_def envNum_def nullToNum_def snoozeExpiry_def

section \<open>The claims\<close>

text \<open>
  C1, on the code. A run finds the snooze expired and the resume email not yet marked as
  sent; the resume email is sent and comes back with an error; the clearing works. Then
  the run does not mark the email as sent, but it clears the snooze all the same and goes
  on to the precipitation check: both keys are gone from the database, and any later
  read finds no record, not an expired one. In the concrete run below the snooze expired
  10 seconds ago; a run on the next day sends no resume email, although its sending
  would succeed.
\<close>

theorem failed_resume_send_still_clears_snooze:
  assumes "\<not> isSnoozed (getSnoozeState (faultGet w) (nowGet w) db (locationKeyOf env))"
    and "truthyNum (expiresAt (getSnoozeState (faultGet w) (nowGet w) db (locationKeyOf env)))"
    and "js_le (nullToNum (expiresAt (getSnoozeState (faultGet w) (nowGet w) db (locationKeyOf env))))
           (Num (of_int (nowExpiry w)))"
    and "\<not> hasResumeEmailBeenSent (faultHas w) db (locationKeyOf env)"
    and "resumeSend w = SendError"
    and "faultClear w = NoFault"
  shows "snoozeGate env w db =
           (None,
            db(snoozeKeyOf (locationKeyOf env) := None, resumeSentKeyOf (locationKeyOf env) := None),
            [RedisGetSnooze, RedisGetResumeSent, SendResume (mkResumeEmail env), RedisClear]) \<and>
         getSnoozeState NoFault later
           (db(snoozeKeyOf (locationKeyOf env) := None, resumeSentKeyOf (locationKeyOf env) := None))
           (locationKeyOf env) = \<lparr>isSnoozed = False, expiresAt = None\<rparr>"
proof -
  have g: "snoozeGate env w db =
           (None,
            db(snoozeKeyOf (locationKeyOf env) := None, resumeSentKeyOf (locationKeyOf env) := None),
            [RedisGetSnooze, RedisGetResumeSent, SendResume (mkResumeEmail env), RedisClear])"
    using assms
    by (simp add: snoozeGate_def resolveExpiry_def clearAndProceed_def clearSnooze_def)
  have k: "resumeSentKeyOf (locationKeyOf env) \<noteq> snoozeKeyOf (locationKeyOf env)"
    using keys_distinct [of "locationKeyOf env"] by simp
  have s: "getSnoozeState NoFault later
           (db(snoozeKeyOf (locationKeyOf env) := None, resumeSentKeyOf (locationKeyOf env) := None))
           (locationKeyOf env) = \<lparr>isSnoozed = False, expiresAt = None\<rparr>"
    using k by (simp add: getSnoozeState_def)
  from g s show ?thesis by simp
qed

theorem failed_resume_send_still_clears_snooze_witness:
  "\<not> isSnoozed (getSnoozeState NoFault 1700000000 dbExpired (locationKeyOf env0)) \<and>
   expiresAt (getSnoozeState NoFault 1700000000 dbExpired (locationKeyOf env0)) =
     Some (Num 1699999990) \<and>
   \<not> hasResumeEmailBeenSent NoFault dbExpired (locationKeyOf env0) \<and>
   trace (handler env0 (world0\<lparr>resumeSend := SendError, weather := Values [Num 0]\<rparr>) dbExpired) =
     [RedisGetSnooze, RedisGetResumeSent, SendResume (mkResumeEmail env0), RedisClear,
      FetchWeather] \<and>
   store (handler env0 (world0\<lparr>resumeSend := SendError, weather := Values [Num 0]\<rparr>) dbExpired)
     = Map.empty \<and>
   getSnoozeState NoFault 1700086400 Map.empty (locationKeyOf env0) =
     \<lparr>isSnoozed = False, expiresAt = None\<rparr> \<and>
   trace (handler env0
      (world0\<lparr>nowGet := 1700086400, nowExpiry := 1700086400, nowSet := 1700086400,
              weather := Values [Num 0]\<rparr>) Map.empty) =
     [RedisGetSnooze, FetchWeather]"
proof -
  let ?w = "world0\<lparr>resumeSend := SendError, weather := Values [Num 0]\<rparr>"
  have p: "parseInt ''1699999990'' = Num 1699999990"
    by (simp add: text_defs)
  have k: "resumeSentKeyOf (locationKeyOf env0) \<noteq> snoozeKeyOf (locationKeyOf env0)"
    using keys_distinct [of "locationKeyOf env0"] by simp
  have st: "getSnoozeState NoFault 1700000000 dbExpired (locationKeyOf env0) =
      \<lparr>isSnoozed = False, expiresAt = Some (Num 1699999990)\<rparr>"
    by (simp add: getSnoozeState_def dbExpired_def p)
  have f: "\<not> hasResumeEmailBeenSent NoFault dbExpired (locationKeyOf env0)"
    by (simp add: hasResumeEmailBeenSent_def dbExpired_def k)
  have w: "faultGet ?w = NoFault" "nowGet ?w = 1700000000" "nowExpiry ?w = 1700000000"
    "faultHas ?w = NoFault" "resumeSend ?w = SendError" "faultClear ?w = NoFault"
    by (simp_all add: world0_def)
  have e: "dbExpired(snoozeKeyOf (locationKeyOf env0) := None,
                     resumeSentKeyOf (locationKeyOf env0) := None) = Map.empty"
    by (simp add: dbExpired_def)
  have g: "snoozeGate env0 ?w dbExpired =
      (None, Map.empty,
       [RedisGetSnooze, RedisGetResumeSent, SendResume (mkResumeEmail env0), RedisClear])"
    using failed_resume_send_still_clears_snooze [of ?w dbExpired env0 1700086400]
    unfolding w e by (simp add: st f nullToNum_def)
  have c: "precipitationCheck env0 ?w Map.empty =
      \<lparr>response = NoAlertNeeded (mkReport env0 ?w (Num 0)), store = Map.empty,
       trace = [FetchWeather]\<rparr>"
    by (simp add: precipitationCheck_def world0_def env0_def envNum_def
        totalPrecipitationInches_def)
  have a: "trace (handler env0 ?w dbExpired) =
     [RedisGetSnooze, RedisGetResumeSent, SendResume (mkResumeEmail env0), RedisClear,
      FetchWeather]"
    "store (handler env0 ?w dbExpired) = Map.empty"
    by (simp_all add: handler_def g c) (simp_all add: env0_def missingVars_def)
  have d: "trace (handler env0
      (world0\<lparr>nowGet := 1700086400, nowExpiry := 1700086400, nowSet := 1700086400,
              weather := Values [Num 0]\<rparr>) Map.empty) =
     [RedisGetSnooze, FetchWeather]"
    by (simp add: run_defs env0_def world0_def)
  have n: "getSnoozeState NoFault 1700086400 Map.empty (locationKeyOf env0) =
     \<lparr>isSnoozed = False, expiresAt = None\<rparr>"
    by (simp add: getSnoozeState_def)
  from st f a d n show ?thesis by simp
qed

text \<open>
  C2, as amended. When \<open>setSnooze\<close> reaches its write, the database afterwards is the
  database before with the expiry key set to the text of \<open>now + weeks * 7*24*3600\<close>,
  whatever expiry was stored before; nothing else changes. In particular the resume-sent
  flag is left as it was, so it reads as sent afterwards exactly when it did before.
\<close>

theorem setSnooze_overwrites_expiry_keeps_flag:
  assumes "f \<noteq> ConnectFails" and "f \<noteq> CmdFails 0"
  shows "snd (setSnooze f now db k (Num wk)) =
           db(snoozeKeyOf k \<mapsto> toString (Num (of_int now + wk * (7 * 24 * 3600)))) \<and>
         snd (setSnooze f now db k (Num wk)) (resumeSentKeyOf k) = db (resumeSentKeyOf k) \<and>
         hasResumeEmailBeenSent g (snd (setSnooze f now db k (Num wk))) k =
           hasResumeEmailBeenSent g db k"
  using assms keys_distinct [of k]
  by (simp add: setSnooze_store snoozeExpiry_Num hasResumeEmailBeenSent_def)

theorem setSnooze_overwrites_expiry_keeps_flag_witness:
  "snd (setSnooze NoFault 1700000000
      [snoozeKeyOf (locationKeyOf env0) \<mapsto> ''1600000000''] (locationKeyOf env0) (Num 2))
     (snoozeKeyOf (locationKeyOf env0)) = Some ''1701209600'' \<and>
   \<not> hasResumeEmailBeenSent NoFault (snd (setSnooze NoFault 1700000000
      [snoozeKeyOf (locationKeyOf env0) \<mapsto> ''1600000000''] (locationKeyOf env0) (Num 2)))
      (locationKeyOf env0)"
proof -
  have s: "toString (Num 1701209600) = ''1701209600''"
    by (simp add: plainText_def showNat.simps digitChar_def decimalDigits_def)
  have n: "NoFault \<noteq> ConnectFails" "NoFault \<noteq> CmdFails 0" by simp_all
  show ?thesis
    using setSnooze_overwrites_expiry_keeps_flag [OF n, of 1700000000
        "[snoozeKeyOf (locationKeyOf env0) \<mapsto> ''1600000000'']" "locationKeyOf env0" 2 NoFault]
      keys_distinct [of "locationKeyOf env0"] s
    by (simp add: hasResumeEmailBeenSent_def)
qed

theorem setSnooze_resume_flag_counterexample:
  "hasResumeEmailBeenSent NoFault
     (snd (setSnooze NoFault 1700000000
        [snoozeKeyOf (locationKeyOf env0) \<mapsto> ''1600000000'',
         resumeSentKeyOf (locationKeyOf env0) \<mapsto> ''1'']
        (locationKeyOf env0) (Num 2)))
     (locationKeyOf env0) \<and>
   snd (setSnooze NoFault 1700000000
        [snoozeKeyOf (locationKeyOf env0) \<mapsto> ''1600000000'',
         resumeSentKeyOf (locationKeyOf env0) \<mapsto> ''1'']
        (locationKeyOf env0) (Num 2)) (resumeSentKeyOf (locationKeyOf env0)) = Some ''1''"
  using keys_distinct [of "locationKeyOf env0"]
  by (simp add: setSnooze_def hasResumeEmailBeenSent_def)

text \<open>
  C3, as amended. A run passes the snooze check, the total exceeds the threshold, the
  alert email is sent, a tier matches, and \<open>setSnooze\<close> throws (its session fails, or it
  cannot log the expiry as a date). Then the run is not aborted: it answers "Alert sent"
  with the total and threshold of the check, the alert email stays among its events, the
  failure is logged after the attempted write, and the database is as \<open>setSnooze\<close> left
  it.
\<close>

theorem failed_snooze_write_keeps_alert:
  assumes "missingVars env = []"
    and "truthyStr (db_REDIS_URL env)"
    and "snoozeGate env w db = (None, db', t)"
    and "weather w = Values vs"
    and "js_gt (totalPrecipitationInches vs) (envNum (PRECIPITATION_THRESHOLD_INCHES env) (1 / 2))"
    and "alertSend w = SendOk"
    and "fst (selectTier env (totalPrecipitationInches vs)) = Some wk"
    and "fst (setSnooze (faultSet w) (nowSet w) db' (locationKeyOf env) wk) = Threw"
  shows "(\<exists>info. response (handler env w db) =
                  AlertSent (mkReport env w (totalPrecipitationInches vs)) info) \<and>
         trace (handler env w db) =
           t @ FetchWeather # SendAlert (mkAlertEmail env w (totalPrecipitationInches vs)) #
           snd (selectTier env (totalPrecipitationInches vs)) @
           [RedisSetSnooze wk, LogFailedToSetSnooze] \<and>
         store (handler env w db) =
           snd (setSnooze (faultSet w) (nowSet w) db' (locationKeyOf env) wk)"
proof -
  note c = check_failed_write [OF assms(2) assms(4) assms(5) assms(6) assms(7) assms(8)]
  have h: "handler env w db =
      (precipitationCheck env w db')\<lparr>trace := t @ trace (precipitationCheck env w db')\<rparr>"
    using assms(1,2,3) by (simp add: handler_def)
  show ?thesis unfolding h c by simp
qed

theorem failed_snooze_write_keeps_alert_witness:
  "missingVars env0 = [] \<and> truthyStr (db_REDIS_URL env0) \<and>
   snoozeGate env0 (world0\<lparr>faultSet := QuitFails\<rparr>) Map.empty = (None, Map.empty, [RedisGetSnooze]) \<and>
   fst (selectTier env0 (totalPrecipitationInches [Num 10, Num (77 / 10)])) = Some (Num 2) \<and>
   fst (setSnooze QuitFails 1700000000 Map.empty (locationKeyOf env0) (Num 2)) = Threw \<and>
   fst (setSnooze ConnectFails 1700000000 Map.empty (locationKeyOf env0) (Num 2)) = Threw \<and>
   response (handler env0 (world0\<lparr>faultSet := QuitFails\<rparr>) Map.empty) =
     AlertSent (mkReport env0 world0 (Num (177 / 254)))
       (Some \<lparr>snoozed = True, snoozeWeeks = Some (Num 2)\<rparr>) \<and>
   trace (handler env0 (world0\<lparr>faultSet := QuitFails\<rparr>) Map.empty) =
     [RedisGetSnooze, FetchWeather, SendAlert (mkAlertEmail env0 world0 (Num (177 / 254))),
      LogMedium, RedisSetSnooze (Num 2), LogFailedToSetSnooze] \<and>
   store (handler env0 (world0\<lparr>faultSet := QuitFails\<rparr>) Map.empty)
     (snoozeKeyOf (locationKeyOf env0)) = Some ''1701209600'' \<and>
   trace (handler env0 (world0\<lparr>faultSet := ConnectFails\<rparr>) Map.empty) =
     [RedisGetSnooze, FetchWeather, SendAlert (mkAlertEmail env0 world0 (Num (177 / 254))),
      LogMedium, RedisSetSnooze (Num 2), LogFailedToSetSnooze] \<and>
   store (handler env0 (world0\<lparr>faultSet := ConnectFails\<rparr>) Map.empty) = Map.empty"
proof -
  let ?q = "world0\<lparr>faultSet := QuitFails\<rparr>"
  let ?c = "world0\<lparr>faultSet := ConnectFails\<rparr>"
  let ?vs = "[Num 10, Num (77 / 10)]"
  have s: "toString (Num 1701209600) = ''1701209600''"
    by (simp add: plainText_def showNat.simps digitChar_def decimalDigits_def)
  have m: "missingVars env0 = []" and u: "truthyStr (db_REDIS_URL env0)"
    by (simp_all add: missingVars_def env0_def)
  have g: "snoozeGate env0 ?q Map.empty = (None, Map.empty, [RedisGetSnooze])"
    "snoozeGate env0 ?c Map.empty = (None, Map.empty, [RedisGetSnooze])"
    by (simp_all add: snoozeGate_def getSnoozeState_def)
  have tot: "totalPrecipitationInches ?vs = Num (177 / 254)"
    by (simp add: totalPrecipitationInches_def)
  have v: "weather ?q = Values ?vs" "weather ?c = Values ?vs"
    and a: "alertSend ?q = SendOk" "alertSend ?c = SendOk"
    and f: "faultSet ?q = QuitFails" "faultSet ?c = ConnectFails"
    and n: "nowSet ?q = 1700000000" "nowSet ?c = 1700000000"
    by (simp_all add: world0_def)
  have gt: "js_gt (totalPrecipitationInches ?vs)
      (envNum (PRECIPITATION_THRESHOLD_INCHES env0) (1 / 2))"
    by (simp add: tot env0_def envNum_def)
  have sel: "selectTier env0 (totalPrecipitationInches ?vs) = (Some (Num 2), [LogMedium])"
    by (simp add: tot selectTier_def env0_def envNum_def)
  have th: "fst (setSnooze QuitFails 1700000000 Map.empty (locationKeyOf env0) (Num 2)) = Threw"
    "fst (setSnooze ConnectFails 1700000000 Map.empty (locationKeyOf env0) (Num 2)) = Threw"
    by (simp_all add: setSnooze_def)
  have st: "snd (setSnooze QuitFails 1700000000 Map.empty (locationKeyOf env0) (Num 2))
      (snoozeKeyOf (locationKeyOf env0)) = Some ''1701209600''"
    "snd (setSnooze ConnectFails 1700000000 Map.empty (locationKeyOf env0) (Num 2)) = Map.empty"
    using s by (simp_all add: setSnooze_def snoozeExpiry_def del: toString.simps)
  have r: "response (handler env0 ?q Map.empty) =
     AlertSent (mkReport env0 world0 (Num (177 / 254)))
       (Some \<lparr>snoozed = True, snoozeWeeks = Some (Num 2)\<rparr>)"
    by (simp add: run_defs env0_def world0_def mkReport_def)
  have e: "mkAlertEmail env0 ?q (Num (177 / 254)) = mkAlertEmail env0 world0 (Num (177 / 254))"
    "mkAlertEmail env0 ?c (Num (177 / 254)) = mkAlertEmail env0 world0 (Num (177 / 254))"
    by (simp_all add: mkAlertEmail_def)
  from failed_snooze_write_keeps_alert [of env0 ?q Map.empty Map.empty "[RedisGetSnooze]" ?vs "Num 2"]
    failed_snooze_write_keeps_alert [of env0 ?c Map.empty Map.empty "[RedisGetSnooze]" ?vs "Num 2"]
    m u g v a gt sel th st r e
  show ?thesis by (simp add: f n tot)
qed

theorem failed_snooze_write_unreported_counterexample:
  "response (handler env0 (world0\<lparr>faultSet := ConnectFails\<rparr>) Map.empty) =
     response (handler env0 world0 Map.empty) \<and>
   response (handler env0 (world0\<lparr>faultSet := ConnectFails\<rparr>) Map.empty) =
     AlertSent (mkReport env0 world0 (Num (177 / 254)))
       (Some \<lparr>snoozed = True, snoozeWeeks = Some (Num 2)\<rparr>) \<and>
   store (handler env0 (world0\<lparr>faultSet := ConnectFails\<rparr>) Map.empty) = Map.empty \<and>
   store (handler env0 world0 Map.empty) (snoozeKeyOf (locationKeyOf env0)) = Some ''1701209600''"
proof -
  have s: "toString (Num 1701209600) = ''1701209600''"
    by (simp add: plainText_def showNat.simps digitChar_def decimalDigits_def)
  have a: "response (handler env0 (world0\<lparr>faultSet := ConnectFails\<rparr>) Map.empty) =
     AlertSent (mkReport env0 world0 (Num (177 / 254)))
       (Some \<lparr>snoozed = True, snoozeWeeks = Some (Num 2)\<rparr>)"
    by (simp add: run_defs env0_def world0_def mkReport_def)
  have b: "response (handler env0 world0 Map.empty) =
     AlertSent (mkReport env0 world0 (Num (177 / 254)))
       (Some \<lparr>snoozed = True, snoozeWeeks = Some (Num 2)\<rparr>)"
    by (simp add: run_defs env0_def world0_def mkReport_def)
  have c: "store (handler env0 (world0\<lparr>faultSet := ConnectFails\<rparr>) Map.empty) = Map.empty"
    by (simp add: run_defs env0_def world0_def)
  have d: "store (handler env0 world0 Map.empty) (snoozeKeyOf (locationKeyOf env0)) =
      Some (toString (Num 1701209600))"
    by (simp add: run_defs env0_def world0_def del: toString.simps)
  from a b c d s show ?thesis by simp
qed

text \<open>
  C4. A total exactly equal to the lower bound of the high tier selects the high tier:
  the high test comes first, so the medium range is not consulted even when its upper
  bound is the same number. A run with a Redis URL that sends the alert for such a total
  reports the high tier's weeks, logs the high tier and not the medium one. No run logs
  both tiers.
\<close>

theorem boundary_total_selects_high_tier:
  assumes "envNum (SNOOZE_HIGH_MIN env) 1 = Num b"
  shows "selectTier env (Num b) = (Some (envNum (SNOOZE_HIGH_WEEKS env) 3), [LogHigh]) \<and>
         (truthyStr (db_REDIS_URL env) \<and> weather w = Values vs \<and>
          totalPrecipitationInches vs = Num b \<and>
          response (handler env w db) = AlertSent rep info \<longrightarrow>
            info = Some \<lparr>snoozed = True, snoozeWeeks = Some (envNum (SNOOZE_HIGH_WEEKS env) 3)\<rparr> \<and>
            LogHigh \<in> set (trace (handler env w db)) \<and>
            LogMedium \<notin> set (trace (handler env w db))) \<and>
         \<not> (LogHigh \<in> set (trace (handler env' w' db')) \<and>
            LogMedium \<in> set (trace (handler env' w' db')))"
proof -
  note sb = selectTier_boundary [OF assms]
  have one: "\<not> (LogHigh \<in> set (trace (handler e u d)) \<and> LogMedium \<in> set (trace (handler e u d)))"
    for e u d
  proof (cases rule: handler_split[of e u d])
    case (early t)
    then show ?thesis by auto
  next
    case (check t d')
    show ?thesis
    proof
      assume "LogHigh \<in> set (trace (handler e u d)) \<and> LogMedium \<in> set (trace (handler e u d))"
      with check have "LogHigh \<in> set (trace (precipitationCheck e u d'))"
        "LogMedium \<in> set (trace (precipitationCheck e u d'))" by auto
      from check_tier_logs(1)[OF this(1)] check_tier_logs(2)[OF this(2)]
      show False by auto
    qed
  qed
  have two: "info = Some \<lparr>snoozed = True, snoozeWeeks = Some (envNum (SNOOZE_HIGH_WEEKS env) 3)\<rparr> \<and>
            LogHigh \<in> set (trace (handler env w db)) \<and>
            LogMedium \<notin> set (trace (handler env w db))"
    if r: "truthyStr (db_REDIS_URL env)" and v: "weather w = Values vs"
      and t: "totalPrecipitationInches vs = Num b"
      and a: "response (handler env w db) = AlertSent rep info"
  proof (cases rule: handler_split[of env w db])
    case (early t)
    with a show ?thesis by auto
  next
    case (check t d')
    from check(3) a have p: "response (precipitationCheck env w d') = AlertSent rep info" by simp
    from check_alert_sent(3)[OF p v r] check_alert_sent(4)[OF p v r] sb t
    have "info = Some \<lparr>snoozed = True, snoozeWeeks = Some (envNum (SNOOZE_HIGH_WEEKS env) 3)\<rparr>"
      and "LogHigh \<in> set (trace (precipitationCheck env w d'))" by auto
    with check(2) one[of env w db] show ?thesis by auto
  qed
  from sb one two show ?thesis by blast
qed

theorem boundary_total_selects_high_tier_witness:
  "envNum (SNOOZE_HIGH_MIN env0) 1 = Num 1 \<and>
   envNum (SNOOZE_MEDIUM_MAX env0) 1 = Num 1 \<and>
   selectTier env0 (Num 1) = (Some (Num 3), [LogHigh]) \<and>
   truthyStr (db_REDIS_URL env0) \<and>
   totalPrecipitationInches [Num (254 / 10)] = Num 1 \<and>
   response (handler env0 (world0\<lparr>weather := Values [Num (254 / 10)]\<rparr>) Map.empty) =
     AlertSent (mkReport env0 world0 (Num 1)) (Some \<lparr>snoozed = True, snoozeWeeks = Some (Num 3)\<rparr>) \<and>
   LogHigh \<in> set (trace (handler env0 (world0\<lparr>weather := Values [Num (254 / 10)]\<rparr>) Map.empty)) \<and>
   LogMedium \<notin> set (trace (handler env0 (world0\<lparr>weather := Values [Num (254 / 10)]\<rparr>) Map.empty))"
proof -
  have h: "envNum (SNOOZE_HIGH_MIN env0) 1 = Num 1" "envNum (SNOOZE_MEDIUM_MAX env0) 1 = Num 1"
    "envNum (SNOOZE_HIGH_WEEKS env0) 3 = Num 3"
    by (simp_all add: env0_def envNum_def)
  have u: "truthyStr (db_REDIS_URL env0)" by (simp add: env0_def)
  have v: "weather (world0\<lparr>weather := Values [Num (254 / 10)]\<rparr>) = Values [Num (254 / 10)]"
    by simp
  have t: "totalPrecipitationInches [Num (254 / 10)] = Num 1"
    by (simp add: totalPrecipitationInches_def)
  have r: "response (handler env0 (world0\<lparr>weather := Values [Num (254 / 10)]\<rparr>) Map.empty) =
     AlertSent (mkReport env0 world0 (Num 1)) (Some \<lparr>snoozed = True, snoozeWeeks = Some (Num 3)\<rparr>)"
    by (simp add: run_defs env0_def world0_def mkReport_def)
  from boundary_total_selects_high_tier [OF h(1),
      of "world0\<lparr>weather := Values [Num (254 / 10)]\<rparr>" "[Num (254 / 10)]" Map.empty
         "mkReport env0 world0 (Num 1)" "Some \<lparr>snoozed = True, snoozeWeeks = Some (Num 3)\<rparr>"]
    h u v t r
  show ?thesis by simp
qed

text \<open>
  C5. Once the weather values are there, the alert email is sent if and only if the
  total in inches is strictly greater than the threshold, in both handlers. For a total
  at or below the threshold the check answers "no alert needed", sends nothing and
  leaves the database alone, whatever the tier variables are; no alert email is sent
  anywhere in such a run.
\<close>

theorem alert_iff_total_exceeds_threshold:
  assumes "weather w = Values vs"
  shows "((\<exists>m. SendAlert m \<in> set (trace (precipitationCheck env w db))) \<longleftrightarrow>
            js_gt (totalPrecipitationInches vs)
              (envNum (PRECIPITATION_THRESHOLD_INCHES env) (1 / 2))) \<and>
         (js_le (totalPrecipitationInches vs)
              (envNum (PRECIPITATION_THRESHOLD_INCHES env) (1 / 2)) \<longrightarrow>
            precipitationCheck env w db =
              \<lparr>response = NoAlertNeeded (mkReport env w (totalPrecipitationInches vs)),
               store = db, trace = [FetchWeather]\<rparr> \<and>
            (\<forall>m. SendAlert m \<notin> set (trace (handler env w db)))) \<and>
         (missingVars env = [] \<longrightarrow>
            ((\<exists>m. SendAlert m \<in> set (snd (handlerPlain env w))) \<longleftrightarrow>
               js_gt (totalPrecipitationInches vs)
                 (envNum (PRECIPITATION_THRESHOLD_INCHES env) (1 / 2))) \<and>
            (js_le (totalPrecipitationInches vs)
                 (envNum (PRECIPITATION_THRESHOLD_INCHES env) (1 / 2)) \<longrightarrow>
               handlerPlain env w =
                 (NoAlertNeeded (mkReport env w (totalPrecipitationInches vs)), [FetchWeather])))"
proof -
  let ?gt = "js_gt (totalPrecipitationInches vs)
              (envNum (PRECIPITATION_THRESHOLD_INCHES env) (1 / 2))"
  let ?le = "js_le (totalPrecipitationInches vs)
              (envNum (PRECIPITATION_THRESHOLD_INCHES env) (1 / 2))"
  have a: "(\<exists>m. SendAlert m \<in> set (trace (precipitationCheck env w db))) \<longleftrightarrow> ?gt"
  proof (cases ?gt)
    case True
    with check_trace_alert[OF assms True, of db] show ?thesis by blast
  next
    case False
    with check_trace_no_alert[OF assms False, of db] show ?thesis by simp
  qed
  have b: "\<forall>m. SendAlert m \<notin> set (trace (handler env w db))" if le: ?le
  proof -
    from le have ng: "\<not> ?gt" by (rule js_le_not_gt)
    show ?thesis
    proof (cases rule: handler_split[of env w db])
      case (early t)
      then show ?thesis by auto
    next
      case (check t db')
      with check_trace_no_alert[OF assms ng, of db'] show ?thesis by auto
    qed
  qed
  have c: "((\<exists>m. SendAlert m \<in> set (snd (handlerPlain env w))) \<longleftrightarrow> ?gt) \<and>
       (?le \<longrightarrow> handlerPlain env w =
            (NoAlertNeeded (mkReport env w (totalPrecipitationInches vs)), [FetchWeather]))"
    if m: "missingVars env = []"
  proof -
    from m missingVars_empty[of env]
    have e: "\<not> (\<not> truthyStr (RESEND_API_KEY env) \<or> \<not> truthyStr (ALERT_EMAIL env)
        \<or> \<not> truthyStr (SENDER_EMAIL env))" by simp
    show ?thesis
      using assms e js_le_not_gt[of "totalPrecipitationInches vs"
          "envNum (PRECIPITATION_THRESHOLD_INCHES env) (1 / 2)"]
      by (auto simp: handlerPlain_def split: sendResult.splits)
  qed
  from a b c check_trace_no_alert[OF assms js_le_not_gt, of env db] show ?thesis by blast
qed


theorem alert_iff_total_exceeds_threshold_witness:
  "weather (world0\<lparr>weather := Values [Num (762 / 100)]\<rparr>) = Values [Num (762 / 100)] \<and>
   totalPrecipitationInches [Num (762 / 100)] = Num (3 / 10) \<and>
   js_le (totalPrecipitationInches [Num (762 / 100)])
     (envNum (PRECIPITATION_THRESHOLD_INCHES env0) (1 / 2)) \<and>
   missingVars env0 = [] \<and>
   response (precipitationCheck env0 (world0\<lparr>weather := Values [Num (762 / 100)]\<rparr>) Map.empty) =
     NoAlertNeeded (mkReport env0 (world0\<lparr>weather := Values [Num (762 / 100)]\<rparr>)
       (totalPrecipitationInches [Num (762 / 100)])) \<and>
   trace (precipitationCheck env0 (world0\<lparr>weather := Values [Num (762 / 100)]\<rparr>) Map.empty) =
     [FetchWeather] \<and>
   SendAlert (mkAlertEmail env0 world0 (Num (3 / 10))) \<notin>
     set (trace (handler env0 (world0\<lparr>weather := Values [Num (762 / 100)]\<rparr>) Map.empty)) \<and>
   snd (handlerPlain env0 (world0\<lparr>weather := Values [Num (762 / 100)]\<rparr>)) = [FetchWeather]"
proof -
  have h: "weather (world0\<lparr>weather := Values [Num (762 / 100)]\<rparr>) = Values [Num (762 / 100)]"
    by simp
  have t: "totalPrecipitationInches [Num (762 / 100)] = Num (3 / 10)"
    by (simp add: totalPrecipitationInches_def)
  have l: "js_le (totalPrecipitationInches [Num (762 / 100)])
     (envNum (PRECIPITATION_THRESHOLD_INCHES env0) (1 / 2))"
    by (simp add: totalPrecipitationInches_def env0_def envNum_def)
  have m: "missingVars env0 = []" by (simp add: missingVars_def env0_def)
  from alert_iff_total_exceeds_threshold [OF h, of env0 Map.empty] h t l m
  show ?thesis by simp
qed




text \<open>
  C7, as amended. A run with complete configuration and a Redis URL that finds the
  location snoozed (a stored expiry, in whole seconds, strictly after the clock) does
  nothing but read the snooze state: the weather is not fetched, no email is sent and
  the database is unchanged. Its response is the skip result carrying the expiry whenever
  \<open>Date\<close> can render the expiry, that is, up to \<open>8.64e15\<close> milliseconds from the epoch.
\<close>

theorem snoozed_run_skips_check:
  assumes "missingVars env = []" and "truthyStr (db_REDIS_URL env)"
    and "isSnoozed (getSnoozeState (faultGet w) (nowGet w) db (locationKeyOf env))"
  shows "\<exists>n. expiresAt (getSnoozeState (faultGet w) (nowGet w) db (locationKeyOf env))
               = Some (Num (of_int n)) \<and>
             nowGet w < n \<and>
             store (handler env w db) = db \<and>
             trace (handler env w db) = [RedisGetSnooze] \<and>
             (\<bar>n\<bar> * 1000 \<le> 8640000000000000 \<longrightarrow>
                response (handler env w db) = CurrentlySnoozed (ISO (n * 1000)))"
proof -
  from snoozed_state[OF assms(3)] obtain n where
    n: "expiresAt (getSnoozeState (faultGet w) (nowGet w) db (locationKeyOf env))
          = Some (Num (of_int n))" "nowGet w < n"
    by blast
  have iso: "\<bar>n\<bar> * 1000 \<le> 8640000000000000 \<Longrightarrow>
      toISOString (Num (of_int n * 1000)) = Some (ISO (n * 1000))"
  proof -
    assume b: "\<bar>n\<bar> * 1000 \<le> 8640000000000000"
    have r: "(of_int n * 1000 :: real) = of_int (n * 1000)" by simp
    have "\<bar>of_int (n * 1000) :: real\<bar> \<le> 8640000000000000"
      using b by (simp add: abs_mult)
    moreover have "(if (of_int (n * 1000) :: real) < 0 then - \<lfloor>- (of_int (n * 1000) :: real)\<rfloor>
        else \<lfloor>(of_int (n * 1000) :: real)\<rfloor>) = n * 1000"
      by (simp only: flip: of_int_minus) (simp del: of_int_mult of_int_minus)
    ultimately show ?thesis unfolding r toISOString.simps by simp
  qed
  have g: "fst (snd (snoozeGate env w db)) = db \<and> snd (snd (snoozeGate env w db)) = [RedisGetSnooze]
      \<and> fst (snoozeGate env w db) \<noteq> None
      \<and> (\<bar>n\<bar> * 1000 \<le> 8640000000000000 \<longrightarrow>
           fst (snoozeGate env w db) = Some (CurrentlySnoozed (ISO (n * 1000))))"
    using assms(3) n(1) iso by (auto simp: snoozeGate_def nullToNum_def split: option.splits)
  show ?thesis
    using n g assms(1,2)
    by (intro exI[of _ n]) (auto simp: handler_def split: prod.splits option.splits)
qed


theorem snoozed_run_skips_check_witness:
  "missingVars env0 = [] \<and> truthyStr (db_REDIS_URL env0) \<and>
   isSnoozed (getSnoozeState (faultGet world0) (nowGet world0) dbSnoozed (locationKeyOf env0)) \<and>
   response (handler env0 world0 dbSnoozed) = CurrentlySnoozed (ISO 1700100000000) \<and>
   store (handler env0 world0 dbSnoozed) = dbSnoozed \<and>
   trace (handler env0 world0 dbSnoozed) = [RedisGetSnooze]"
proof -
  have p: "parseInt ''1700100000'' = Num 1700100000"
    by (simp add: text_defs)
  have st: "getSnoozeState (faultGet world0) (nowGet world0) dbSnoozed (locationKeyOf env0) =
              \<lparr>isSnoozed = True, expiresAt = Some (Num 1700100000)\<rparr>"
    by (simp add: getSnoozeState_def dbSnoozed_def world0_def p)
  have h: "missingVars env0 = []" "truthyStr (db_REDIS_URL env0)"
    "isSnoozed (getSnoozeState (faultGet world0) (nowGet world0) dbSnoozed (locationKeyOf env0))"
    by (simp_all add: st) (simp_all add: env0_def missingVars_def)
  from snoozed_run_skips_check [OF h] st h show ?thesis
    by auto
qed

theorem snoozed_far_future_counterexample:
  "isSnoozed (getSnoozeState (faultGet world0) (nowGet world0)
      [snoozeKeyOf (locationKeyOf env0) \<mapsto> ''8640000000001''] (locationKeyOf env0)) \<and>
   response (handler env0 world0 [snoozeKeyOf (locationKeyOf env0) \<mapsto> ''8640000000001''])
     = InternalError \<and>
   trace (handler env0 world0 [snoozeKeyOf (locationKeyOf env0) \<mapsto> ''8640000000001''])
     = [RedisGetSnooze]"
proof -
  have p: "parseInt ''8640000000001'' = Num 8640000000001"
    by (simp add: text_defs)
  show ?thesis
    by (simp add: run_defs env0_def world0_def p)
qed

text \<open>
  C8. When the session of \<open>getSnoozeState\<close> throws (on connecting, at its read, or on
  quitting), the function still returns, and what it returns is the state for a location
  with no record: not snoozed, no expiry. The run then answers and acts exactly as a run
  whose read works and finds no snooze record.
\<close>

theorem store_unreachable_fails_open:
  assumes "f = ConnectFails \<or> f = CmdFails 0 \<or> f = QuitFails"
  shows "getSnoozeState f now db k = \<lparr>isSnoozed = False, expiresAt = None\<rparr> \<and>
         getSnoozeState f now db k = getSnoozeState NoFault now (db(snoozeKeyOf k := None)) k \<and>
         response (handler env (w\<lparr>faultGet := f\<rparr>) db) =
           response (handler env (w\<lparr>faultGet := NoFault\<rparr>)
                       (db(snoozeKeyOf (locationKeyOf env) := None))) \<and>
         trace (handler env (w\<lparr>faultGet := f\<rparr>) db) =
           trace (handler env (w\<lparr>faultGet := NoFault\<rparr>)
                    (db(snoozeKeyOf (locationKeyOf env) := None)))"
proof -
  have a: "getSnoozeState f now db k = \<lparr>isSnoozed = False, expiresAt = None\<rparr>"
    using assms by (auto simp: getSnoozeState_def)
  have b: "getSnoozeState NoFault now (db(snoozeKeyOf k := None)) k
             = \<lparr>isSnoozed = False, expiresAt = None\<rparr>"
    by (simp add: getSnoozeState_def)
  have c: "response (handler env (w\<lparr>faultGet := f\<rparr>) db) =
           response (handler env (w\<lparr>faultGet := NoFault\<rparr>)
                       (db(snoozeKeyOf (locationKeyOf env) := None)))"
    using check_ignores_store(1) [of env w db "db(snoozeKeyOf (locationKeyOf env) := None)"]
    by (simp add: handler_def gate_fails_open [OF assms] gate_absent check_ignores_faultGet)
  have d: "trace (handler env (w\<lparr>faultGet := f\<rparr>) db) =
           trace (handler env (w\<lparr>faultGet := NoFault\<rparr>)
                    (db(snoozeKeyOf (locationKeyOf env) := None)))"
    using check_ignores_store(2) [of env w db "db(snoozeKeyOf (locationKeyOf env) := None)"]
    by (simp add: handler_def gate_fails_open [OF assms] gate_absent check_ignores_faultGet)
  from a b c d show ?thesis by simp
qed

theorem store_unreachable_fails_open_witness:
  "getSnoozeState ConnectFails 1700000000 dbSnoozed (locationKeyOf env0)
     = \<lparr>isSnoozed = False, expiresAt = None\<rparr> \<and>
   response (handler env0 (world0\<lparr>faultGet := ConnectFails\<rparr>) dbSnoozed) =
     AlertSent (mkReport env0 world0 (Num (177 / 254)))
       (Some \<lparr>snoozed = True, snoozeWeeks = Some (Num 2)\<rparr>) \<and>
   trace (handler env0 (world0\<lparr>faultGet := ConnectFails\<rparr>) dbSnoozed) =
     [RedisGetSnooze, FetchWeather, SendAlert (mkAlertEmail env0 world0 (Num (177 / 254))),
      LogMedium, RedisSetSnooze (Num 2)]"
proof -
  have h: "ConnectFails = ConnectFails \<or> ConnectFails = CmdFails 0 \<or> ConnectFails = QuitFails"
    by simp
  have r: "response (handler env0 (world0\<lparr>faultGet := NoFault\<rparr>)
              (dbSnoozed(snoozeKeyOf (locationKeyOf env0) := None))) =
     AlertSent (mkReport env0 world0 (Num (177 / 254)))
       (Some \<lparr>snoozed = True, snoozeWeeks = Some (Num 2)\<rparr>)"
    by (simp add: run_defs env0_def world0_def mkReport_def)
  have t: "trace (handler env0 (world0\<lparr>faultGet := NoFault\<rparr>)
              (dbSnoozed(snoozeKeyOf (locationKeyOf env0) := None))) =
     [RedisGetSnooze, FetchWeather, SendAlert (mkAlertEmail env0 world0 (Num (177 / 254))),
      LogMedium, RedisSetSnooze (Num 2)]"
    by (simp add: run_defs env0_def world0_def mkAlertEmail_def)
  from store_unreachable_fails_open [OF h, of 1700000000 dbSnoozed "locationKeyOf env0" env0 world0]
    r t show ?thesis by simp
qed

text \<open>
  C9. If sending the alert email does not succeed, the run never calls \<open>setSnooze\<close>: the
  database is left as the precipitation check found it and the failure is the run's
  response. \<open>setSnooze\<close> is called only when the alert email was sent, a Redis URL is
  configured and a tier matched the total.
\<close>

theorem snooze_only_after_confirmed_alert:
  "(alertSend w \<noteq> SendOk \<longrightarrow> (\<forall>wk. RedisSetSnooze wk \<notin> set (trace (handler env w db)))) \<and>
   (RedisSetSnooze wk \<in> set (trace (handler env w db)) \<longrightarrow>
      alertSend w = SendOk \<and> truthyStr (db_REDIS_URL env) \<and>
      (\<exists>vs. weather w = Values vs \<and> fst (selectTier env (totalPrecipitationInches vs)) = Some wk)) \<and>
   (weather w = Values vs \<and>
    js_gt (totalPrecipitationInches vs) (envNum (PRECIPITATION_THRESHOLD_INCHES env) (1 / 2)) \<longrightarrow>
      (alertSend w = SendError \<longrightarrow>
         precipitationCheck env w db =
           \<lparr>response = AlertEmailFailed, store = db,
            trace = [FetchWeather, SendAlert (mkAlertEmail env w (totalPrecipitationInches vs))]\<rparr>) \<and>
      (alertSend w = SendThrows \<longrightarrow>
         precipitationCheck env w db =
           \<lparr>response = InternalError, store = db,
            trace = [FetchWeather, SendAlert (mkAlertEmail env w (totalPrecipitationInches vs))]\<rparr>))"
proof -
  have key: "RedisSetSnooze k \<in> set (trace (handler env w db)) \<Longrightarrow>
      alertSend w = SendOk \<and> truthyStr (db_REDIS_URL env) \<and>
      (\<exists>vs. weather w = Values vs \<and> fst (selectTier env (totalPrecipitationInches vs)) = Some k)" for k
  proof -
    assume a: "RedisSetSnooze k \<in> set (trace (handler env w db))"
    from handler_trace_split[of env w db] obtain t where
      t: "set t \<subseteq> {RedisGetSnooze, RedisGetResumeSent, RedisMarkResumeSent, RedisClear,
            SendResume (mkResumeEmail env)}"
      and c: "trace (handler env w db) = t \<or>
              (\<exists>db'. trace (handler env w db) = t @ trace (precipitationCheck env w db'))"
      by blast
    from a t c obtain db' where "RedisSetSnooze k \<in> set (trace (precipitationCheck env w db'))"
      by auto
    from check_setSnooze_event[OF this] show ?thesis by blast
  qed
  have p1: "alertSend w \<noteq> SendOk \<longrightarrow> (\<forall>wk. RedisSetSnooze wk \<notin> set (trace (handler env w db)))"
    using key by blast
  have p3: "weather w = Values vs \<and>
    js_gt (totalPrecipitationInches vs) (envNum (PRECIPITATION_THRESHOLD_INCHES env) (1 / 2)) \<longrightarrow>
      (alertSend w = SendError \<longrightarrow>
         precipitationCheck env w db =
           \<lparr>response = AlertEmailFailed, store = db,
            trace = [FetchWeather, SendAlert (mkAlertEmail env w (totalPrecipitationInches vs))]\<rparr>) \<and>
      (alertSend w = SendThrows \<longrightarrow>
         precipitationCheck env w db =
           \<lparr>response = InternalError, store = db,
            trace = [FetchWeather, SendAlert (mkAlertEmail env w (totalPrecipitationInches vs))]\<rparr>)"
    by (simp add: precipitationCheck_def alertBranch_def)
  from p1 key[of wk] p3 show ?thesis by blast
qed


theorem snooze_only_after_confirmed_alert_witness:
  "RedisSetSnooze (Num 2) \<in> set (trace (handler env0 world0 Map.empty)) \<and>
   alertSend world0 = SendOk \<and> truthyStr (db_REDIS_URL env0) \<and>
   fst (selectTier env0 (totalPrecipitationInches [Num 10, Num (77 / 10)])) = Some (Num 2) \<and>
   alertSend (world0\<lparr>alertSend := SendError\<rparr>) \<noteq> SendOk \<and>
   RedisSetSnooze (Num 2) \<notin> set (trace (handler env0 (world0\<lparr>alertSend := SendError\<rparr>) Map.empty)) \<and>
   response (precipitationCheck env0 (world0\<lparr>alertSend := SendError\<rparr>) Map.empty) = AlertEmailFailed \<and>
   store (precipitationCheck env0 (world0\<lparr>alertSend := SendError\<rparr>) Map.empty) = Map.empty"
proof -
  have a: "RedisSetSnooze (Num 2) \<in> set (trace (handler env0 world0 Map.empty))"
    by (simp add: run_defs env0_def world0_def)
  have b: "weather (world0\<lparr>alertSend := SendError\<rparr>) = Values [Num 10, Num (77 / 10)] \<and>
     js_gt (totalPrecipitationInches [Num 10, Num (77 / 10)])
       (envNum (PRECIPITATION_THRESHOLD_INCHES env0) (1 / 2))"
    by (simp add: world0_def env0_def envNum_def totalPrecipitationInches_def)
  have c: "alertSend (world0\<lparr>alertSend := SendError\<rparr>) \<noteq> SendOk" by simp
  have d: "weather world0 = Values [Num 10, Num (77 / 10)]" by (simp add: world0_def)
  show ?thesis
    using a b c d
      snooze_only_after_confirmed_alert [of world0 env0 Map.empty "Num 2" "[Num 10, Num (77 / 10)]"]
      snooze_only_after_confirmed_alert [of "world0\<lparr>alertSend := SendError\<rparr>" env0 Map.empty
        "Num 2" "[Num 10, Num (77 / 10)]"]
    by auto
qed

text \<open>
  C10. Without a Redis URL the snooze handler leaves the database alone and does what the
  plain handler does, the weather fetch and, if the threshold is exceeded, the alert
  email, with the same response apart from the fields that only the snooze handler adds.
  The alert email has the same sender, recipient, coordinates, dates, total and threshold
  as the plain handler's, but not the same text: the character after each coordinate
  differs, so no alert email of the one handler is an alert email of the other.
\<close>

theorem no_redis_url_matches_plain_handler_up_to_degree_sign:
  assumes "\<not> truthyStr (db_REDIS_URL env)"
  shows "store (handler env w db) = db \<and>
         set (trace (handler env w db)) \<subseteq> insert FetchWeather (range SendAlert) \<and>
         commonFields (response (handler env w db)) = fst (handlerPlain env w) \<and>
         map (withDegreeSign degreeSignPlain) (trace (handler env w db)) =
           snd (handlerPlain env w) \<and>
         (\<forall>m. SendAlert m \<in> set (trace (handler env w db)) \<longrightarrow>
              SendAlert m \<notin> set (snd (handlerPlain env w)))"
proof (cases "length (missingVars env) > 0")
  case True
  then show ?thesis
    using missingVars_empty [of env] by (auto simp: handler_def handlerPlain_def)
next
  case False
  then have m: "\<not> (\<not> truthyStr (RESEND_API_KEY env) \<or> \<not> truthyStr (ALERT_EMAIL env)
      \<or> \<not> truthyStr (SENDER_EMAIL env))"
    using missingVars_empty [of env] by blast
  have h: "handler env w db = precipitationCheck env w db"
    using False assms by (simp add: handler_def)
  have d: "degreeSignSnooze \<noteq> degreeSignPlain"
    by (simp add: degreeSignSnooze_def degreeSignPlain_def)
  show ?thesis
    unfolding h using assms m d
    by (auto simp: precipitationCheck_def alertBranch_def handlerPlain_def
          mkAlertEmail_def mkAlertEmailPlain_def
        split: weatherResult.splits sendResult.splits)
qed

theorem no_redis_alert_email_differs_witness:
  "\<not> truthyStr (db_REDIS_URL (env0\<lparr>db_REDIS_URL := None\<rparr>)) \<and>
   store (handler (env0\<lparr>db_REDIS_URL := None\<rparr>) world0 dbSnoozed) = dbSnoozed \<and>
   trace (handler (env0\<lparr>db_REDIS_URL := None\<rparr>) world0 dbSnoozed) =
     [FetchWeather,
      SendAlert (mkAlertEmail (env0\<lparr>db_REDIS_URL := None\<rparr>) world0 (Num (177 / 254)))] \<and>
   snd (handlerPlain (env0\<lparr>db_REDIS_URL := None\<rparr>) world0) =
     [FetchWeather,
      SendAlert (mkAlertEmailPlain (env0\<lparr>db_REDIS_URL := None\<rparr>) world0 (Num (177 / 254)))] \<and>
   degreeSign (mkAlertEmail (env0\<lparr>db_REDIS_URL := None\<rparr>) world0 (Num (177 / 254))) =
     [CHR 0xEC, CHR 0xA7, CHR 0xB8] \<and>
   degreeSign (mkAlertEmailPlain (env0\<lparr>db_REDIS_URL := None\<rparr>) world0 (Num (177 / 254))) =
     [CHR 0xC2, CHR 0xB0] \<and>
   SendAlert (mkAlertEmail (env0\<lparr>db_REDIS_URL := None\<rparr>) world0 (Num (177 / 254)))
     \<notin> set (snd (handlerPlain (env0\<lparr>db_REDIS_URL := None\<rparr>) world0)) \<and>
   commonFields (response (handler (env0\<lparr>db_REDIS_URL := None\<rparr>) world0 dbSnoozed)) =
     AlertSent (mkReport (env0\<lparr>db_REDIS_URL := None\<rparr>) world0 (Num (177 / 254))) None"
proof -
  have h: "\<not> truthyStr (db_REDIS_URL (env0\<lparr>db_REDIS_URL := None\<rparr>))" by simp
  have p: "handlerPlain (env0\<lparr>db_REDIS_URL := None\<rparr>) world0 =
     (AlertSent (mkReport (env0\<lparr>db_REDIS_URL := None\<rparr>) world0 (Num (177 / 254))) None,
      [FetchWeather,
       SendAlert (mkAlertEmailPlain (env0\<lparr>db_REDIS_URL := None\<rparr>) world0 (Num (177 / 254)))])"
    by (simp add: handlerPlain_def env0_def world0_def totalPrecipitationInches_def envNum_def)
  have t: "trace (handler (env0\<lparr>db_REDIS_URL := None\<rparr>) world0 dbSnoozed) =
     [FetchWeather,
      SendAlert (mkAlertEmail (env0\<lparr>db_REDIS_URL := None\<rparr>) world0 (Num (177 / 254)))]"
    by (simp add: run_defs env0_def world0_def mkAlertEmail_def)
  have g: "degreeSign (mkAlertEmail (env0\<lparr>db_REDIS_URL := None\<rparr>) world0 (Num (177 / 254))) =
     [CHR 0xEC, CHR 0xA7, CHR 0xB8]"
    "degreeSign (mkAlertEmailPlain (env0\<lparr>db_REDIS_URL := None\<rparr>) world0 (Num (177 / 254))) =
     [CHR 0xC2, CHR 0xB0]"
    by (simp_all add: mkAlertEmail_def mkAlertEmailPlain_def degreeSignSnooze_def
        degreeSignPlain_def)
  from no_redis_url_matches_plain_handler_up_to_degree_sign [OF h, of world0 dbSnoozed] p h t g
  show ?thesis by simp
qed

end
